theory Spec2Isabelle
  imports Complex_Main "HOL-Library.Multiset"
begin

section \<open>Data model of the quiz engine (src/quiz_logic.py)\<close>

text \<open>
  The engine keeps its persistent state in a PostgreSQL database and its session state in
  Python dataclasses. The tables the engine reads and writes are modelled as lists of rows
  in one record; every engine function takes the database and returns the new one.
  Strings are ASCII character lists.
\<close>

datatype error =
    QuestionNotFound int  \<comment> \<open>\<open>ValueError(f"Question {question_id} not found")\<close>\<close>
  | NoActiveAttempt       \<comment> \<open>\<open>ValueError("No active attempt in session")\<close>\<close>
  | NegativeLimit         \<comment> \<open>PostgreSQL rejects a negative \<open>LIMIT\<close>\<close>

text \<open>\<open>@dataclass QuestionData\<close>.\<close>

record QuestionData =
  question_id :: int
  question_text :: string
  correct_answer :: string
  options :: "string list"
  quiz_type :: string
  difficulty :: "int option"

text \<open>
  A row of table \<open>questions\<close>, joined with \<open>quiz_types\<close> (the type's name, NULL when the
  question has no type) and with the question's option texts in \<open>option_id\<close> order.
\<close>

record question_row =
  qr_question_id :: int
  qr_question_text :: string
  qr_correct_answer :: string
  qr_quiz_type :: "string option"
  qr_options :: "string list"

text \<open>A row of table \<open>responses\<close>.\<close>

record response_row =
  rr_attempt_id :: int
  rr_question_id :: int
  rr_selected_answer :: string
  rr_is_correct :: bool

text \<open>A row of table \<open>quiz_attempts\<close>; \<open>qa_completed\<close> says that \<open>completed_at\<close> is set.\<close>

record attempt_row =
  qa_attempt_id :: int
  qa_user_id :: int
  qa_completed :: bool

text \<open>A row of table \<open>word_mastery\<close>.\<close>

record word_mastery_row =
  wm_user_id :: int
  wm_word_id :: int
  wm_first_try_correct_count :: int
  wm_mastered :: bool

text \<open>
  The database. \<open>db_quiz_attempts\<close> is kept in insertion order, which is the order of
  \<open>started_at\<close>; \<open>attempt_seq\<close> is the next value of the serial \<open>attempt_id\<close>.
  \<open>db_word_question_map\<close> holds pairs (word id, question id), \<open>db_quiz_attempt_items\<close>
  pairs (attempt id, question id), \<open>db_words\<close> pairs (word id, word text).
\<close>

record database =
  db_questions :: "question_row list"
  db_words :: "(int \<times> string) list"
  db_word_question_map :: "(int \<times> int) list"
  db_word_mastery :: "word_mastery_row list"
  db_quiz_attempts :: "attempt_row list"
  db_quiz_attempt_items :: "(int \<times> int) list"
  db_responses :: "response_row list"
  attempt_seq :: int

text \<open>\<open>@dataclass QuizConfig\<close>. The difficulty distribution is never read by the engine.\<close>

record QuizConfig =
  target_question_count :: int
  format_distribution :: "(string \<times> int) list"
  exclude_recent_attempts :: int

text \<open>\<open>@dataclass QuizAttempt\<close>, without its timestamps.\<close>

record QuizAttempt =
  attempt_id :: int
  user_id :: int
  quiz_type_id :: "int option"
  questions :: "QuestionData list"

text \<open>\<open>@dataclass QuizResponse\<close>.\<close>

record QuizResponse =
  r_question_id :: int
  r_question_text :: string
  user_answer :: string
  r_correct_answer :: string
  selected_answer :: string
  is_correct :: bool
  r_quiz_type :: string
  time_taken_ms :: "int option"

text \<open>
  \<open>@dataclass QuizResult\<close>. The score is a Python float; it is modelled as an exact
  rational. The field \<open>mastery_updates\<close> is read from the tables that the database's
  triggers maintain; the triggers are not part of the Python source, and the field is left out.
\<close>

record QuizResult =
  res_attempt_id :: int
  total_questions :: int
  correct_answers :: int
  score_percentage :: rat
  res_responses :: "QuizResponse list"
  is_perfect_score :: bool
  incorrect_questions :: "QuestionData list option"

text \<open>\<open>@dataclass QuizSession\<close>; \<open>__post_init__\<close> makes \<open>completed_rounds\<close> a list.\<close>

record QuizSession =
  session_id :: string
  s_user_id :: int
  original_questions :: "QuestionData list"
  current_round :: int
  first_attempt_id :: "int option"
  current_attempt_id :: "int option"
  completed_rounds :: "QuizResult list"
  is_completed :: bool

section \<open>Python string operations\<close>

text \<open>
  \<open>str.isspace\<close> on an ASCII character: TAB, LF, VT, FF, CR, FS, GS, RS, US and space.
\<close>

definition py_isspace :: "char \<Rightarrow> bool" where
  "py_isspace c =
     (c \<in> set [CHR 0x09, CHR 0x0A, CHR 0x0B, CHR 0x0C, CHR 0x0D,
                CHR 0x1C, CHR 0x1D, CHR 0x1E, CHR 0x1F, CHR '' ''])"

text \<open>\<open>str.strip()\<close>: drop the leading and the trailing whitespace.\<close>

definition py_strip :: "string \<Rightarrow> string" where
  "py_strip s = rev (dropWhile py_isspace (rev (dropWhile py_isspace s)))"

text \<open>\<open>str.lower()\<close> on ASCII text: \<open>A\<close>..\<open>Z\<close> become \<open>a\<close>..\<open>z\<close>.\<close>

definition lower_char :: "char \<Rightarrow> char" where
  "lower_char c =
     (case map_of (zip ''ABCDEFGHIJKLMNOPQRSTUVWXYZ'' ''abcdefghijklmnopqrstuvwxyz'') c of
        None \<Rightarrow> c
      | Some l \<Rightarrow> l)"

definition py_lower :: "string \<Rightarrow> string" where
  "py_lower s = map lower_char s"

text \<open>\<open>xs[:n]\<close>: a negative \<open>n\<close> counts from the end of the list.\<close>

definition py_slice_to :: "'a list \<Rightarrow> int \<Rightarrow> 'a list" where
  "py_slice_to xs n =
     (if 0 \<le> n then take (nat n) xs else take (length xs - nat (- n)) xs)"

section \<open>Question selection\<close>

text \<open>
  \<open>QuizConfig(...)\<close> with \<open>__post_init__\<close>: a missing format distribution becomes the
  balanced default. A Python dict is an association list in insertion order.
\<close>

definition new_QuizConfig :: "int \<Rightarrow> (string \<times> int) list option \<Rightarrow> int \<Rightarrow> QuizConfig" where
  "new_QuizConfig target fd recent =
     \<lparr> target_question_count = target,
       format_distribution =
         (case fd of
            None \<Rightarrow> [(''synonym'', 4), (''antonym'', 4), (''word_meaning'', 4),
                     (''fill_in_blank'', 3), (''analogy'', 3), (''odd_one_out'', 2)]
          | Some d \<Rightarrow> d),
       exclude_recent_attempts = recent \<rparr>"

definition default_QuizConfig :: QuizConfig where
  "default_QuizConfig = new_QuizConfig 20 None 5"

text \<open>
  \<open>QuizEngine.get_excluded_questions\<close>: the questions answered in the user's last
  \<open>recent_attempts\<close> quiz attempts.
\<close>

definition get_excluded_questions :: "database \<Rightarrow> int \<Rightarrow> int \<Rightarrow> error + int set" where
  "get_excluded_questions db uid recent_attempts =
     (if recent_attempts < 0 then Inl NegativeLimit
      else
        let recent_attempt_ids =
              take (nat recent_attempts)
                (map qa_attempt_id
                  (filter (\<lambda>a. qa_user_id a = uid) (rev (db_quiz_attempts db))))
        in if recent_attempt_ids = [] then Inr {}
           else Inr (set (map rr_question_id
                  (filter (\<lambda>r. rr_attempt_id r \<in> set recent_attempt_ids) (db_responses db)))))"

text \<open>\<open>QuizEngine.get_globally_mastered_words\<close>.\<close>

definition get_globally_mastered_words :: "database \<Rightarrow> int \<Rightarrow> int set" where
  "get_globally_mastered_words db uid =
     set (map wm_word_id
       (filter (\<lambda>wm. wm_user_id wm = uid \<and> wm_mastered wm
                  \<and> wm_word_id wm \<in> set (map fst (db_words db)))
          (db_word_mastery db)))"

text \<open>
  The \<open>WHERE\<close> clause that \<open>get_questions_by_criteria\<close> builds: the quiz type's name, and
  the two \<open>NOT IN\<close> clauses, each added only when its exclusion set is not empty.
\<close>

definition criteria_where :: "database \<Rightarrow> string \<Rightarrow> int set \<Rightarrow> int set \<Rightarrow> question_row \<Rightarrow> bool" where
  "criteria_where db qt excluded_questions excluded_words q =
     (qr_quiz_type q = Some qt
      \<and> (if excluded_questions \<noteq> {} then qr_question_id q \<notin> excluded_questions else True)
      \<and> (if excluded_words \<noteq> {}
         then qr_question_id q \<notin>
                set (map snd (filter (\<lambda>wq. fst wq \<in> excluded_words) (db_word_question_map db)))
         else True))"

text \<open>The \<open>QuestionData\<close> built from a fetched row, with the quiz type to store.\<close>

definition question_of_row :: "string \<Rightarrow> question_row \<Rightarrow> QuestionData" where
  "question_of_row qt row =
     \<lparr> question_id = qr_question_id row,
       question_text = qr_question_text row,
       correct_answer = qr_correct_answer row,
       options = qr_options row,
       quiz_type = qt,
       difficulty = None \<rparr>"

text \<open>\<open>row['quiz_type'] or "unknown"\<close>: NULL and the empty string become \<open>"unknown"\<close>.\<close>

definition quiz_type_or_unknown :: "string option \<Rightarrow> string" where
  "quiz_type_or_unknown t =
     (case t of None \<Rightarrow> ''unknown'' | Some n \<Rightarrow> if n = [] then ''unknown'' else n)"

text \<open>
  The loop of \<open>get_questions_by_criteria\<close> over the fetched rows: it stops at \<open>cnt\<close>
  questions (the source's \<open>count\<close>). The query joins \<open>quiz_types\<close> on the requested name, so
  the quiz type of every fetched row is the requested one.
\<close>

fun collect_rows :: "string \<Rightarrow> int \<Rightarrow> question_row list \<Rightarrow> QuestionData list \<Rightarrow> QuestionData list" where
  "collect_rows qt cnt [] acc = acc"
| "collect_rows qt cnt (row # rows) acc =
     (if int (length acc) \<ge> cnt then acc
      else collect_rows qt cnt rows (acc @ [question_of_row qt row]))"

text \<open>
  \<open>QuizEngine.get_questions_by_criteria\<close>. The query ends in
  \<open>ORDER BY RANDOM() LIMIT count * 2\<close>: the order the database picks is the parameter
  \<open>rnd\<close>, and a negative limit is an error of the database.
\<close>

definition get_questions_by_criteria ::
  "(question_row list \<Rightarrow> question_row list) \<Rightarrow> database \<Rightarrow> string \<Rightarrow> int \<Rightarrow> int set \<Rightarrow> int set
     \<Rightarrow> error + QuestionData list" where
  "get_questions_by_criteria rnd db qt cnt excluded_questions excluded_words =
     (if cnt * 2 < 0 then Inl NegativeLimit
      else
        let results = take (nat (cnt * 2))
              (rnd (filter (criteria_where db qt excluded_questions excluded_words)
                      (db_questions db)))
        in Inr (collect_rows qt cnt results []))"

text \<open>
  The loop of \<open>generate_quiz\<close> over the items of the format distribution; \<open>i\<close> counts the
  queries made so far, so that every query has a random order of its own.
\<close>

fun collect_by_type ::
  "(nat \<Rightarrow> question_row list \<Rightarrow> question_row list) \<Rightarrow> database \<Rightarrow> int set \<Rightarrow> int set \<Rightarrow> nat
     \<Rightarrow> (string \<times> int) list \<Rightarrow> QuestionData list \<Rightarrow> error + QuestionData list" where
  "collect_by_type rnd db exq exw i [] all_questions = Inr all_questions"
| "collect_by_type rnd db exq exw i ((qt, target_count) # rest) all_questions =
     (case get_questions_by_criteria (rnd i) db qt target_count exq exw of
        Inl e \<Rightarrow> Inl e
      | Inr qs \<Rightarrow> collect_by_type rnd db exq exw (Suc i) rest (all_questions @ qs))"

text \<open>The backfill step of \<open>generate_quiz\<close>: synonym questions not selected so far.\<close>

definition backfill ::
  "(nat \<Rightarrow> question_row list \<Rightarrow> question_row list) \<Rightarrow> database \<Rightarrow> int set \<Rightarrow> int set \<Rightarrow> nat
     \<Rightarrow> int \<Rightarrow> QuestionData list \<Rightarrow> error + QuestionData list" where
  "backfill rnd db exq exw i target all_questions =
     (if int (length all_questions) < target
      then
        let needed = target - int (length all_questions);
            used_question_ids = set (map question_id all_questions)
        in (case get_questions_by_criteria (rnd i) db ''synonym'' needed
                   (exq \<union> used_question_ids) exw of
              Inl e \<Rightarrow> Inl e
            | Inr backfill_questions \<Rightarrow> Inr (all_questions @ backfill_questions))
      else Inr all_questions)"

text \<open>
  The words mapped to a question in table \<open>word_question_map\<close> (\<open>wordsMappedTo\<close> in the
  specification's catalog interface).
\<close>

definition wordsMappedTo :: "database \<Rightarrow> int \<Rightarrow> int set" where
  "wordsMappedTo db qid =
     set (map fst (filter (\<lambda>wq. snd wq = qid) (db_word_question_map db)))"

text \<open>
  What holds of every question the selector has picked: it is a catalog row of its quiz type,
  it is not an excluded question, and none of its words is an excluded word.
\<close>

definition picked_ok :: "database \<Rightarrow> int set \<Rightarrow> int set \<Rightarrow> QuestionData \<Rightarrow> bool" where
  "picked_ok db exq exw q =
     ((\<exists>row \<in> set (db_questions db).
         qr_question_id row = question_id q \<and> qr_quiz_type row = Some (quiz_type q))
      \<and> question_id q \<notin> exq \<and> wordsMappedTo db (question_id q) \<inter> exw = {})"

text \<open>\<open>if config is None: config = QuizConfig()\<close>.\<close>

definition config_or_default :: "QuizConfig option \<Rightarrow> QuizConfig" where
  "config_or_default config_opt =
     (case config_opt of None \<Rightarrow> default_QuizConfig | Some c \<Rightarrow> c)"

text \<open>
  \<open>QuizEngine.generate_quiz\<close>. \<open>shuffle\<close> is the permutation \<open>random.shuffle\<close> picks. The
  new attempt and its items are inserted into the database.
\<close>

definition generate_quiz ::
  "(nat \<Rightarrow> question_row list \<Rightarrow> question_row list) \<Rightarrow> (QuestionData list \<Rightarrow> QuestionData list)
     \<Rightarrow> database \<Rightarrow> int \<Rightarrow> QuizConfig option \<Rightarrow> error + QuizAttempt \<times> database" where
  "generate_quiz rnd shuffle db uid config_opt =
     (let config = config_or_default config_opt in
      case get_excluded_questions db uid (exclude_recent_attempts config) of
        Inl e \<Rightarrow> Inl e
      | Inr excluded_questions \<Rightarrow>
          let excluded_words = get_globally_mastered_words db uid in
          (case collect_by_type rnd db excluded_questions excluded_words 0
                  (format_distribution config) [] of
             Inl e \<Rightarrow> Inl e
           | Inr by_type \<Rightarrow>
               (case backfill rnd db excluded_questions excluded_words
                       (length (format_distribution config))
                       (target_question_count config) by_type of
                  Inl e \<Rightarrow> Inl e
                | Inr all_questions \<Rightarrow>
                    let final_questions =
                          py_slice_to (shuffle all_questions) (target_question_count config);
                        aid = attempt_seq db;
                        db' = db \<lparr> db_quiz_attempts := db_quiz_attempts db @
                                     [\<lparr> qa_attempt_id = aid, qa_user_id = uid,
                                        qa_completed = False \<rparr>],
                                  db_quiz_attempt_items := db_quiz_attempt_items db @
                                     map (\<lambda>q. (aid, question_id q)) final_questions,
                                  attempt_seq := aid + 1 \<rparr>
                    in Inr (\<lparr> attempt_id = aid, user_id = uid, quiz_type_id = None,
                              questions = final_questions \<rparr>, db'))))"

section \<open>Submitting responses\<close>

text \<open>
  \<open>QuizEngine.submit_response\<close>. The \<open>INSERT\<close> into \<open>responses\<close> fires the database's
  mastery trigger, which is not part of the Python source; the model appends the row.
\<close>

definition submit_response :: "database \<Rightarrow> int \<Rightarrow> int \<Rightarrow> string \<Rightarrow> error + QuizResponse \<times> database" where
  "submit_response db aid qid answer =
     (case find (\<lambda>q. qr_question_id q = qid) (db_questions db) of
        None \<Rightarrow> Inl (QuestionNotFound qid)
      | Some q \<Rightarrow>
          let correct = (py_lower (py_strip answer) = py_lower (py_strip (qr_correct_answer q)));
              db' = db \<lparr> db_responses := db_responses db @
                          [\<lparr> rr_attempt_id = aid, rr_question_id = qid,
                             rr_selected_answer = answer, rr_is_correct = correct \<rparr>] \<rparr>
          in Inr (\<lparr> r_question_id = qid,
                    r_question_text = qr_question_text q,
                    user_answer = answer,
                    r_correct_answer = qr_correct_answer q,
                    selected_answer = answer,
                    is_correct = correct,
                    r_quiz_type = quiz_type_or_unknown (qr_quiz_type q),
                    time_taken_ms = None \<rparr>, db'))"

text \<open>
  The first loop of \<open>submit_quiz\<close>. A response is the pair of its \<open>question_id\<close> and its
  \<open>answer\<close>. The connection commits every statement, so the rows inserted before an error
  stay in the database.
\<close>

fun submit_responses ::
  "database \<Rightarrow> int \<Rightarrow> (int \<times> string) list \<Rightarrow> QuizResponse list
     \<Rightarrow> (error + QuizResponse list) \<times> database" where
  "submit_responses db aid [] quiz_responses = (Inr quiz_responses, db)"
| "submit_responses db aid (response_data # rest) quiz_responses =
     (case submit_response db aid (fst response_data) (snd response_data) of
        Inl e \<Rightarrow> (Inl e, db)
      | Inr (response, db') \<Rightarrow> submit_responses db' aid rest (quiz_responses @ [response]))"

text \<open>
  The query of \<open>submit_quiz\<close> for the full data of the questions answered incorrectly. SQL
  leaves the order of its rows open; the model returns them in table order.
\<close>

definition fetch_incorrect_questions :: "database \<Rightarrow> int list \<Rightarrow> QuestionData list" where
  "fetch_incorrect_questions db incorrect_question_ids =
     map (\<lambda>row. question_of_row (quiz_type_or_unknown (qr_quiz_type row)) row)
       (filter (\<lambda>row. qr_question_id row \<in> set incorrect_question_ids) (db_questions db))"

text \<open>
  The second part of \<open>submit_quiz\<close>: the score of the recorded responses, and the
  questions answered incorrectly for a next round.
\<close>

definition quiz_result_of :: "database \<Rightarrow> int \<Rightarrow> QuizResponse list \<Rightarrow> QuizResult" where
  "quiz_result_of db aid quiz_responses =
     (let correct_count = int (length (filter is_correct quiz_responses));
          total_count = int (length quiz_responses);
          score = (if total_count > 0
                   then of_int correct_count / of_int total_count * 100 else 0);
          perfect = (correct_count = total_count);
          incorrect_question_ids =
            map r_question_id (filter (\<lambda>r. \<not> is_correct r) quiz_responses);
          incorrect =
            (if \<not> perfect \<and> incorrect_question_ids \<noteq> []
             then fetch_incorrect_questions db incorrect_question_ids else [])
      in \<lparr> res_attempt_id = aid,
           total_questions = total_count,
           correct_answers = correct_count,
           score_percentage = score,
           res_responses = quiz_responses,
           is_perfect_score = perfect,
           incorrect_questions = (if incorrect = [] then None else Some incorrect) \<rparr>)"

text \<open>\<open>UPDATE quiz_attempts SET completed_at = ... WHERE attempt_id = ...\<close>.\<close>

definition mark_completed :: "database \<Rightarrow> int \<Rightarrow> database" where
  "mark_completed db aid =
     db \<lparr> db_quiz_attempts :=
            map (\<lambda>a. if qa_attempt_id a = aid then a \<lparr> qa_completed := True \<rparr> else a)
              (db_quiz_attempts db) \<rparr>"

text \<open>\<open>QuizEngine.submit_quiz\<close>.\<close>

definition submit_quiz :: "database \<Rightarrow> int \<Rightarrow> (int \<times> string) list \<Rightarrow> (error + QuizResult) \<times> database" where
  "submit_quiz db aid rs =
     (case submit_responses db aid rs [] of
        (Inl e, db1) \<Rightarrow> (Inl e, db1)
      | (Inr quiz_responses, db1) \<Rightarrow>
          (Inr (quiz_result_of db1 aid quiz_responses), mark_completed db1 aid))"

section \<open>Quiz sessions\<close>

text \<open>\<open>QuizEngine.create_quiz_session\<close>; the fresh UUID is the parameter \<open>sid\<close>.\<close>

definition create_quiz_session ::
  "(nat \<Rightarrow> question_row list \<Rightarrow> question_row list) \<Rightarrow> (QuestionData list \<Rightarrow> QuestionData list)
     \<Rightarrow> string \<Rightarrow> database \<Rightarrow> int \<Rightarrow> QuizConfig option \<Rightarrow> error + QuizSession \<times> database" where
  "create_quiz_session rnd shuffle sid db uid config_opt =
     (case generate_quiz rnd shuffle db uid config_opt of
        Inl e \<Rightarrow> Inl e
      | Inr (quiz_attempt, db') \<Rightarrow>
          Inr (\<lparr> session_id = sid,
                 s_user_id = uid,
                 original_questions = questions quiz_attempt,
                 current_round = 1,
                 first_attempt_id = Some (attempt_id quiz_attempt),
                 current_attempt_id = Some (attempt_id quiz_attempt),
                 completed_rounds = [],
                 is_completed = False \<rparr>, db'))"

text \<open>\<open>QuizEngine.create_retry_quiz\<close>.\<close>

definition create_retry_quiz :: "database \<Rightarrow> int \<Rightarrow> QuestionData list \<Rightarrow> QuizAttempt \<times> database" where
  "create_retry_quiz db uid incorrect =
     (let aid = attempt_seq db;
          db' = db \<lparr> db_quiz_attempts := db_quiz_attempts db @
                       [\<lparr> qa_attempt_id = aid, qa_user_id = uid, qa_completed = False \<rparr>],
                    db_quiz_attempt_items := db_quiz_attempt_items db @
                       map (\<lambda>q. (aid, question_id q)) incorrect,
                    attempt_seq := aid + 1 \<rparr>
      in (\<lparr> attempt_id = aid, user_id = uid, quiz_type_id = None, questions = incorrect \<rparr>, db'))"

text \<open>
  \<open>QuizEngine.submit_quiz_session_round\<close>. The Python mutates the session after
  \<open>submit_quiz\<close> has returned: when \<open>submit_quiz\<close> raises, the session is as it was, and
  the model returns the error and no session.
\<close>

definition submit_quiz_session_round ::
  "database \<Rightarrow> QuizSession \<Rightarrow> (int \<times> string) list
     \<Rightarrow> (error + QuizResult \<times> QuizSession) \<times> database" where
  "submit_quiz_session_round db session rs =
     (case current_attempt_id session of
        None \<Rightarrow> (Inl NoActiveAttempt, db)
      | Some aid \<Rightarrow>
          (case submit_quiz db aid rs of
             (Inl e, db1) \<Rightarrow> (Inl e, db1)
           | (Inr result, db1) \<Rightarrow>
               let s1 = session \<lparr> completed_rounds := completed_rounds session @ [result] \<rparr> in
               if is_perfect_score result
               then (Inr (result, s1 \<lparr> is_completed := True \<rparr>), db1)
               else
                 (case incorrect_questions result of
                    Some (q # qs) \<Rightarrow>
                      let (retry_attempt, db2) = create_retry_quiz db1 (s_user_id session) (q # qs)
                      in (Inr (result, s1 \<lparr> current_round := current_round session + 1,
                                            current_attempt_id := Some (attempt_id retry_attempt) \<rparr>),
                          db2)
                  | _ \<Rightarrow> (Inr (result, s1 \<lparr> is_completed := True \<rparr>), db1))))"

text \<open>
  The question set of an attempt, as \<open>get_quiz_attempt\<close> reads it from
  \<open>quiz_attempt_items\<close>: the active question set of a session is that of its current attempt.
\<close>

definition attempt_question_ids :: "database \<Rightarrow> int \<Rightarrow> int list" where
  "attempt_question_ids db aid =
     map snd (filter (\<lambda>item. fst item = aid) (db_quiz_attempt_items db))"

text \<open>A question id names a row of table \<open>questions\<close>.\<close>

definition in_catalog :: "database \<Rightarrow> int \<Rightarrow> bool" where
  "in_catalog db qid = (qid \<in> set (map qr_question_id (db_questions db)))"

text \<open>Submitting responses only appends rows to table \<open>responses\<close>.\<close>

definition responses_added :: "database \<Rightarrow> database \<Rightarrow> int list \<Rightarrow> bool" where
  "responses_added db db' qids =
     (db_questions db' = db_questions db
      \<and> db_quiz_attempts db' = db_quiz_attempts db
      \<and> db_quiz_attempt_items db' = db_quiz_attempt_items db
      \<and> attempt_seq db' = attempt_seq db
      \<and> map rr_question_id (db_responses db') = map rr_question_id (db_responses db) @ qids)"

text \<open>
  The submit endpoint of \<open>src/main.py\<close>, called once per submitted round: a completed
  session has been removed from the registry and takes no further round; a round that raises
  leaves the stored session as it was.
\<close>

fun submit_rounds ::
  "database \<Rightarrow> QuizSession \<Rightarrow> (int \<times> string) list list \<Rightarrow> QuizSession \<times> database" where
  "submit_rounds db session [] = (session, db)"
| "submit_rounds db session (rs # rest) =
     (if is_completed session then (session, db)
      else
        (case submit_quiz_session_round db session rs of
           (Inl e, db') \<Rightarrow> submit_rounds db' session rest
         | (Inr (result, session'), db') \<Rightarrow> submit_rounds db' session' rest))"

section \<open>Mastery aggregation\<close>

text \<open>
  Modelled from the spec: the mastery update of a recorded response runs in a database
  trigger on table \<open>responses\<close>, and the trigger is not among the Python sources. The
  definitions follow section 4.3 and the data model of the specification: only a correct
  first attempt within a round counts; it increments the first-try-correct counter by one,
  unless the question is mastered already; a question is mastered once the counter reaches
  the threshold 2.
\<close>

record QuestionMasteryState =
  firstTryCorrectCount :: nat
  isMastered :: bool

definition mastery_threshold :: nat where
  "mastery_threshold = 2"

definition update_mastery :: "QuestionMasteryState \<Rightarrow> bool \<Rightarrow> bool \<Rightarrow> QuestionMasteryState" where
  "update_mastery st isCorrect isFirstAttempt =
     (if isFirstAttempt \<and> isCorrect \<and> \<not> isMastered st
      then let c = firstTryCorrectCount st + 1
           in \<lparr> firstTryCorrectCount = c, isMastered = (mastery_threshold \<le> c) \<rparr>
      else st)"

text \<open>
  Modelled from the spec: the Mastery Store, one state per pair of user and question, and
  \<open>recordAttempt(userID, questionID, isCorrect, isFirstAttemptThisRound)\<close> on it. A pair
  never attempted has counter 0 and is not mastered.
\<close>

type_synonym mastery_store = "int \<times> int \<Rightarrow> QuestionMasteryState"

definition empty_store :: mastery_store where
  "empty_store = (\<lambda>k. \<lparr> firstTryCorrectCount = 0, isMastered = False \<rparr>)"

definition recordAttempt :: "mastery_store \<Rightarrow> int \<Rightarrow> int \<Rightarrow> bool \<Rightarrow> bool \<Rightarrow> mastery_store" where
  "recordAttempt store userID questionID isCorrect isFirstAttempt =
     store ((userID, questionID) :=
       update_mastery (store (userID, questionID)) isCorrect isFirstAttempt)"

text \<open>A recorded attempt: user, question, correct, first attempt within its round.\<close>

type_synonym attempt = "int \<times> int \<times> bool \<times> bool"

fun recordAttempts :: "mastery_store \<Rightarrow> attempt list \<Rightarrow> mastery_store" where
  "recordAttempts store [] = store"
| "recordAttempts store ((u, q, c, f) # rest) = recordAttempts (recordAttempt store u q c f) rest"

text \<open>The correct first attempts of user \<open>u\<close> at question \<open>q\<close> among the recorded attempts.\<close>

definition correct_first_attempts :: "int \<Rightarrow> int \<Rightarrow> attempt list \<Rightarrow> nat" where
  "correct_first_attempts u q as =
     length (filter (\<lambda>a. fst a = u \<and> fst (snd a) = q \<and> fst (snd (snd a)) \<and> snd (snd (snd a))) as)"

text \<open>
  Modelled from the spec: the word-mastery read. \<open>get_enhanced_mastery_updates\<close> of
  \<open>src/enhanced_app.py\<close> selects it from the view \<open>vw_word_mastery_detail\<close>, which is defined
  in the database schema and not in the Python sources. Following section 4.3 and the data
  model of the specification, the total is the number of questions currently mapped to the
  word, the mastered count is the number of those the user has mastered, and the percentage
  is \<open>100 * mastered / total\<close>, or 0 for a word mapped to no question. It is computed from
  the mapping and the store at every read.
\<close>

record WordMastery =
  totalQuestions :: nat
  masteredQuestions :: nat
  percentage :: rat

definition questionsMappedTo :: "(int \<times> int) list \<Rightarrow> int \<Rightarrow> int list" where
  "questionsMappedTo wqm wordID = remdups (map snd (filter (\<lambda>wq. fst wq = wordID) wqm))"

definition getWordMastery :: "mastery_store \<Rightarrow> (int \<times> int) list \<Rightarrow> int \<Rightarrow> int \<Rightarrow> WordMastery" where
  "getWordMastery store wqm userID wordID =
     (let qs = questionsMappedTo wqm wordID;
          total = length qs;
          mastered = length (filter (\<lambda>q. isMastered (store (userID, q))) qs)
      in \<lparr> totalQuestions = total,
           masteredQuestions = mastered,
           percentage = (if total = 0 then 0 else 100 * of_nat mastered / of_nat total) \<rparr>)"

text \<open>Modelled from the spec: adding a question-word mapping to the catalog.\<close>

definition addMapping :: "(int \<times> int) list \<Rightarrow> int \<Rightarrow> int \<Rightarrow> (int \<times> int) list" where
  "addMapping wqm wordID questionID = wqm @ [(wordID, questionID)]"

section \<open>A small catalog for concrete runs\<close>

text \<open>
  Three synonym questions and one antonym question, each mapped to the word of its correct
  answer; user 7 has mastered word 13, the word of question 4.
\<close>

definition sample_questions :: "question_row list" where
  "sample_questions =
     [\<lparr> qr_question_id = 1, qr_question_text = ''Synonym of big'',
        qr_correct_answer = ''Large'', qr_quiz_type = Some ''synonym'',
        qr_options = [''Large'', ''Tiny''] \<rparr>,
      \<lparr> qr_question_id = 2, qr_question_text = ''Synonym of glad'',
        qr_correct_answer = ''happy'', qr_quiz_type = Some ''synonym'',
        qr_options = [''happy'', ''sad''] \<rparr>,
      \<lparr> qr_question_id = 3, qr_question_text = ''Antonym of hot'',
        qr_correct_answer = ''cold'', qr_quiz_type = Some ''antonym'',
        qr_options = [''cold'', ''warm''] \<rparr>,
      \<lparr> qr_question_id = 4, qr_question_text = ''Synonym of small'',
        qr_correct_answer = ''tiny'', qr_quiz_type = Some ''synonym'',
        qr_options = [''tiny'', ''huge''] \<rparr>]"

definition sample_db :: database where
  "sample_db =
     \<lparr> db_questions = sample_questions,
       db_words = [(10, ''large''), (11, ''happy''), (12, ''cold''), (13, ''tiny'')],
       db_word_question_map = [(10, 1), (11, 2), (12, 3), (13, 4)],
       db_word_mastery = [\<lparr> wm_user_id = 7, wm_word_id = 13,
                            wm_first_try_correct_count = 2, wm_mastered = True \<rparr>],
       db_quiz_attempts = [],
       db_quiz_attempt_items = [],
       db_responses = [],
       attempt_seq = 1 \<rparr>"

text \<open>The database's random order and \<open>random.shuffle\<close>, fixed for the concrete runs.\<close>

definition table_order :: "nat \<Rightarrow> question_row list \<Rightarrow> question_row list" where
  "table_order i rows = rows"

definition reverse_shuffle :: "QuestionData list \<Rightarrow> QuestionData list" where
  "reverse_shuffle qs = rev qs"

text \<open>
  The session that \<open>create_quiz_session\<close> opens for user 7 on the catalog, for one synonym
  and one antonym question, and the database after it.
\<close>

definition sample_config :: QuizConfig where
  "sample_config = new_QuizConfig 2 (Some [(''synonym'', 1), (''antonym'', 1)]) 5"

definition sample_session_db :: database where
  "sample_session_db =
     sample_db \<lparr> db_quiz_attempts :=
                   [\<lparr> qa_attempt_id = 1, qa_user_id = 7, qa_completed = False \<rparr>],
                 db_quiz_attempt_items := [(1, 3), (1, 1)],
                 attempt_seq := 2 \<rparr>"

definition sample_session :: QuizSession where
  "sample_session =
     \<lparr> session_id = ''session-1'',
       s_user_id = 7,
       original_questions =
         [question_of_row ''antonym'' (sample_questions ! 2),
          question_of_row ''synonym'' (sample_questions ! 0)],
       current_round = 1,
       first_attempt_id = Some 1,
       current_attempt_id = Some 1,
       completed_rounds = [],
       is_completed = False \<rparr>"

section \<open>Evaluation rules for concrete runs\<close>

lemmas sample_defs =
  sample_db_def sample_questions_def table_order_def reverse_shuffle_def
  sample_config_def sample_session_db_def sample_session_def

lemmas string_defs =
  py_lower_def py_strip_def py_isspace_def lower_char_def

lemmas selector_defs =
  generate_quiz_def config_or_default_def default_QuizConfig_def new_QuizConfig_def
  get_excluded_questions_def get_globally_mastered_words_def get_questions_by_criteria_def
  criteria_where_def backfill_def py_slice_to_def question_of_row_def

lemmas session_defs =
  submit_quiz_session_round_def submit_quiz_def quiz_result_of_def mark_completed_def
  submit_response_def
  fetch_incorrect_questions_def create_retry_quiz_def quiz_type_or_unknown_def
  question_of_row_def attempt_question_ids_def

lemma sample_session_created:
  "create_quiz_session table_order reverse_shuffle ''session-1'' sample_db 7 (Some sample_config)
     = Inr (sample_session, sample_session_db)"
  by (simp add: create_quiz_session_def selector_defs sample_defs)

section \<open>Judging a response\<close>








section \<open>The selector's result\<close>

text \<open>
  Claim C10. For a non-negative target question count, the list \<open>generate_quiz\<close> returns
  has at most that many questions: the combined list is cut to the target after the shuffle,
  whatever the per-type sub-targets add up to.
\<close>

theorem generate_quiz_at_most_target:
  assumes "generate_quiz rnd shuffle db uid config_opt = Inr (qa, db')"
    and "0 \<le> target_question_count (config_or_default config_opt)"
  shows "int (length (questions qa)) \<le> target_question_count (config_or_default config_opt)"
proof -
  from assms(1) obtain all_questions where
    "questions qa = py_slice_to (shuffle all_questions)
        (target_question_count (config_or_default config_opt))"
    by (auto simp: generate_quiz_def Let_def split: sum.splits)
  then show ?thesis using assms(2) by (simp add: py_slice_to_def)
qed

theorem generate_quiz_at_most_target_witness:
  "0 \<le> target_question_count
          (config_or_default (Some (new_QuizConfig 1 (Some [(''synonym'', 1), (''antonym'', 1)]) 5)))
   \<and> (\<exists>qa db'. generate_quiz table_order reverse_shuffle sample_db 7
          (Some (new_QuizConfig 1 (Some [(''synonym'', 1), (''antonym'', 1)]) 5)) = Inr (qa, db')
        \<and> map question_id (questions qa) = [3]
        \<and> int (length (questions qa)) \<le> 1)"
proof -
  let ?c = "Some (new_QuizConfig 1 (Some [(''synonym'', 1), (''antonym'', 1)]) 5)"
  have t: "0 \<le> target_question_count (config_or_default ?c)"
    by (simp add: config_or_default_def new_QuizConfig_def)
  have "\<exists>qa db'. generate_quiz table_order reverse_shuffle sample_db 7 ?c = Inr (qa, db')
          \<and> map question_id (questions qa) = [3]"
    by (simp add: selector_defs sample_defs)
  then obtain qa db' where
    run: "generate_quiz table_order reverse_shuffle sample_db 7 ?c = Inr (qa, db')"
    and ids: "map question_id (questions qa) = [3]"
    by (elim exE conjE)
  have "int (length (questions qa)) \<le> target_question_count (config_or_default ?c)"
    using generate_quiz_at_most_target [OF run t] .
  then have "int (length (questions qa)) \<le> 1"
    by (simp add: config_or_default_def new_QuizConfig_def)
  then show ?thesis using t run ids by (intro conjI exI [of _ qa] exI [of _ db'])
qed

lemma collect_rows_take:
  "collect_rows qt cnt rows acc
     = acc @ map (question_of_row qt) (take (nat (cnt - int (length acc))) rows)"
proof (induction rows arbitrary: acc)
  case Nil
  show ?case by simp
next
  case (Cons row rows)
  show ?case
  proof (cases "int (length acc) \<ge> cnt")
    case True
    then show ?thesis by simp
  next
    case False
    then have "nat (cnt - int (length acc)) = Suc (nat (cnt - int (length (acc @ [row']))))" for row' :: QuestionData
      by simp
    then show ?thesis using False Cons.IH [of "acc @ [question_of_row qt row]"]
      by simp
  qed
qed

lemma excluded_word_clause:
  "(qid \<notin> set (map snd (filter (\<lambda>wq. fst wq \<in> exw) wqm)))
     = (set (map fst (filter (\<lambda>wq. snd wq = qid) wqm)) \<inter> exw = {})"
proof -
  have "(qid \<in> set (map snd (filter (\<lambda>wq. fst wq \<in> exw) wqm)))
      = (\<exists>w. (w, qid) \<in> set wqm \<and> w \<in> exw)"
    by force
  moreover have "(set (map fst (filter (\<lambda>wq. snd wq = qid) wqm)) \<inter> exw = {})
      = (\<not> (\<exists>w. (w, qid) \<in> set wqm \<and> w \<in> exw))"
    by force
  ultimately show ?thesis by simp
qed

lemma criteria_where_iff:
  "criteria_where db qt exq exw row
     = (qr_quiz_type row = Some qt \<and> qr_question_id row \<notin> exq
        \<and> wordsMappedTo db (qr_question_id row) \<inter> exw = {})"
proof (cases "exw = {}")
  case True
  then show ?thesis by (auto simp: criteria_where_def)
next
  case False
  then show ?thesis
    unfolding criteria_where_def wordsMappedTo_def excluded_word_clause by auto
qed

lemma perm_distinct_map:
  assumes "mset ys = mset xs" and "distinct (map f xs)"
  shows "distinct (map f ys)"
proof -
  have "mset (map f ys) = mset (map f xs)" using assms(1) by simp
  then show ?thesis using assms(2) by (metis mset_eq_imp_distinct_iff)
qed

lemma get_questions_by_criteria_picked:
  assumes pk: "distinct (map qr_question_id (db_questions db))"
    and perm: "\<forall>rows. mset (rnd rows) = mset rows"
    and run: "get_questions_by_criteria rnd db qt cnt exq exw = Inr qs"
  shows "distinct (map question_id qs)
       \<and> (\<forall>q \<in> set qs. picked_ok db exq exw q \<and> quiz_type q = qt)"
proof -
  let ?cand = "filter (criteria_where db qt exq exw) (db_questions db)"
  define rows where "rows = take (nat (cnt - 0)) (take (nat (cnt * 2)) (rnd ?cand))"
  have qs: "qs = map (question_of_row qt) rows"
    using run by (simp add: get_questions_by_criteria_def collect_rows_take rows_def Let_def
        split: if_splits)
  have sub: "set rows \<subseteq> set ?cand"
  proof -
    have "set rows \<subseteq> set (rnd ?cand)"
      unfolding rows_def by (meson set_take_subset subset_trans)
    moreover have "set (rnd ?cand) = set ?cand"
      using perm by (metis mset_eq_setD)
    ultimately show ?thesis by simp
  qed
  have "distinct (map qr_question_id ?cand)"
    using pk by (rule distinct_map_filter)
  then have "distinct (map qr_question_id (rnd ?cand))"
    using perm by (metis perm_distinct_map)
  then have d: "distinct (map qr_question_id rows)"
    unfolding rows_def take_map [symmetric] by (intro distinct_take)
  have ids: "map question_id qs = map qr_question_id rows"
    by (simp add: qs question_of_row_def)
  have "picked_ok db exq exw q \<and> quiz_type q = qt" if "q \<in> set qs" for q
  proof -
    from that obtain row where r: "row \<in> set rows" and q: "q = question_of_row qt row"
      by (auto simp: qs)
    from r sub have "row \<in> set (db_questions db)" and "criteria_where db qt exq exw row"
      by auto
    then show ?thesis
      unfolding q by (auto simp: picked_ok_def question_of_row_def criteria_where_iff)
  qed
  then show ?thesis using d ids by simp
qed

lemma same_row:
  assumes pk: "distinct (map qr_question_id (db_questions db))"
    and "r1 \<in> set (db_questions db)" "r2 \<in> set (db_questions db)"
    and "qr_question_id r1 = qr_question_id r2"
  shows "r1 = r2"
  using assms by (meson distinct_map inj_onD)

lemma collect_by_type_picked:
  assumes pk: "distinct (map qr_question_id (db_questions db))"
    and perm: "\<forall>i rows. mset (rnd i rows) = mset rows"
  shows "distinct (map fst fd) \<Longrightarrow>
     distinct (map question_id acc) \<Longrightarrow>
     (\<forall>q \<in> set acc. picked_ok db exq exw q \<and> quiz_type q \<notin> set (map fst fd)) \<Longrightarrow>
     collect_by_type rnd db exq exw i fd acc = Inr res \<Longrightarrow>
     distinct (map question_id res) \<and> (\<forall>q \<in> set res. picked_ok db exq exw q)"
proof (induction fd arbitrary: i acc)
  case Nil
  then show ?case by simp
next
  case (Cons item rest)
  obtain qt target_count where item: "item = (qt, target_count)" by (cases item)
  from Cons.prems(4) obtain qs where
    q1: "get_questions_by_criteria (rnd i) db qt target_count exq exw = Inr qs"
    and rec: "collect_by_type rnd db exq exw (Suc i) rest (acc @ qs) = Inr res"
    by (auto simp: item split: sum.splits)
  have p: "\<forall>rows. mset (rnd i rows) = mset rows" using perm by simp
  from get_questions_by_criteria_picked [OF pk p q1]
  have dq: "distinct (map question_id qs)"
    and okq: "\<forall>q \<in> set qs. picked_ok db exq exw q \<and> quiz_type q = qt"
    by simp_all
  have disj: "question_id a \<noteq> question_id b" if "a \<in> set acc" "b \<in> set qs" for a b
  proof
    assume eq: "question_id a = question_id b"
    from that Cons.prems(3) okq obtain ra rb where
      ra: "ra \<in> set (db_questions db)" "qr_question_id ra = question_id a"
        "qr_quiz_type ra = Some (quiz_type a)"
      and rb: "rb \<in> set (db_questions db)" "qr_question_id rb = question_id b"
        "qr_quiz_type rb = Some (quiz_type b)"
      unfolding picked_ok_def by blast
    have "ra = rb" using same_row [OF pk ra(1) rb(1)] ra(2) rb(2) eq by simp
    then have "quiz_type a = quiz_type b" using ra(3) rb(3) by simp
    moreover have "quiz_type b = qt" using okq that(2) by simp
    moreover have "quiz_type a \<noteq> qt" using Cons.prems(3) that(1) by (auto simp: item)
    ultimately show False by simp
  qed
  have d': "distinct (map question_id (acc @ qs))"
    using Cons.prems(2) dq disj by auto
  have keys: "distinct (map fst rest)" and fresh: "qt \<notin> set (map fst rest)"
    using Cons.prems(1) by (simp_all add: item)
  have inv': "\<forall>q \<in> set (acc @ qs). picked_ok db exq exw q \<and> quiz_type q \<notin> set (map fst rest)"
    using Cons.prems(3) okq fresh by (auto simp: item)
  show ?case using Cons.IH [OF keys d' inv' rec] .
qed

lemma backfill_picked:
  assumes pk: "distinct (map qr_question_id (db_questions db))"
    and perm: "\<forall>i rows. mset (rnd i rows) = mset rows"
    and d: "distinct (map question_id acc)"
    and ok: "\<forall>q \<in> set acc. picked_ok db exq exw q"
    and run: "backfill rnd db exq exw i target acc = Inr res"
  shows "distinct (map question_id res) \<and> (\<forall>q \<in> set res. picked_ok db exq exw q)"
proof (cases "int (length acc) < target")
  case False
  then have "res = acc" using run by (simp add: backfill_def)
  then show ?thesis using d ok by simp
next
  case True
  let ?exq = "exq \<union> set (map question_id acc)"
  from True run obtain qs where
    q1: "get_questions_by_criteria (rnd i) db ''synonym'' (target - int (length acc)) ?exq exw
           = Inr qs"
    and res: "res = acc @ qs"
    by (auto simp: backfill_def Let_def split: sum.splits)
  have p: "\<forall>rows. mset (rnd i rows) = mset rows" using perm by simp
  from get_questions_by_criteria_picked [OF pk p q1]
  have dq: "distinct (map question_id qs)"
    and okq: "\<forall>q \<in> set qs. picked_ok db ?exq exw q"
    by simp_all
  have "question_id a \<noteq> question_id b" if "a \<in> set acc" "b \<in> set qs" for a b
  proof -
    have "question_id b \<notin> exq \<union> set (map question_id acc)"
      using okq that(2) by (simp add: picked_ok_def)
    then have "question_id b \<notin> question_id ` set acc" by simp
    then show ?thesis using that(1) by (metis imageI)
  qed
  then have "distinct (map question_id (acc @ qs))"
    using d dq by auto
  moreover have "picked_ok db exq exw q" if "q \<in> set qs" for q
    using okq that by (auto simp: picked_ok_def)
  ultimately show ?thesis using ok by (auto simp: res)
qed

lemma py_slice_to_take: "\<exists>k. py_slice_to xs n = take k xs"
  by (auto simp: py_slice_to_def)

text \<open>
  Claim C7. In one call of \<open>generate_quiz\<close> no question id is returned twice, and no
  returned question is mapped to a word of the excluded-word set (the user's globally
  mastered words): the query drops a question as soon as one of its words is excluded. So a
  returned question that has mapped words never has all of them excluded. The catalog's
  question ids are a primary key, the format distribution is a dict (its keys are distinct),
  and the database's random order and \<open>random.shuffle\<close> are permutations.
\<close>

theorem generate_quiz_distinct_and_unmastered:
  assumes pk: "distinct (map qr_question_id (db_questions db))"
    and keys: "distinct (map fst (format_distribution (config_or_default config_opt)))"
    and perm: "\<forall>i rows. mset (rnd i rows) = mset rows"
    and shuf: "\<forall>qs. mset (shuffle qs) = mset qs"
    and run: "generate_quiz rnd shuffle db uid config_opt = Inr (qa, db')"
  shows "distinct (map question_id (questions qa))
       \<and> (\<forall>q \<in> set (questions qa).
            wordsMappedTo db (question_id q) \<inter> get_globally_mastered_words db uid = {}
            \<and> (wordsMappedTo db (question_id q) \<noteq> {}
                 \<longrightarrow> \<not> wordsMappedTo db (question_id q) \<subseteq> get_globally_mastered_words db uid))"
proof -
  let ?config = "config_or_default config_opt"
  let ?exw = "get_globally_mastered_words db uid"
  from run obtain exq by_type all_questions where
    c1: "collect_by_type rnd db exq ?exw 0 (format_distribution ?config) [] = Inr by_type"
    and c2: "backfill rnd db exq ?exw (length (format_distribution ?config))
               (target_question_count ?config) by_type = Inr all_questions"
    and fin: "questions qa
               = py_slice_to (shuffle all_questions) (target_question_count ?config)"
    by (auto simp: generate_quiz_def Let_def split: sum.splits)
  have "distinct (map question_id by_type) \<and> (\<forall>q \<in> set by_type. picked_ok db exq ?exw q)"
    using collect_by_type_picked [OF pk perm keys _ _ c1] by simp
  then have "distinct (map question_id all_questions)
      \<and> (\<forall>q \<in> set all_questions. picked_ok db exq ?exw q)"
    using backfill_picked [OF pk perm _ _ c2] by simp
  then have d: "distinct (map question_id all_questions)"
    and ok: "\<forall>q \<in> set all_questions. picked_ok db exq ?exw q"
    by simp_all
  have ms: "mset (shuffle all_questions) = mset all_questions" using shuf by simp
  have d2: "distinct (map question_id (shuffle all_questions))"
    using perm_distinct_map [OF ms d] .
  obtain k where k: "questions qa = take k (shuffle all_questions)"
    using py_slice_to_take fin by metis
  have "distinct (map question_id (questions qa))"
    unfolding k take_map [symmetric] using d2 by (rule distinct_take)
  moreover have "set (questions qa) \<subseteq> set all_questions"
    unfolding k using mset_eq_setD [OF ms] set_take_subset by fastforce
  ultimately show ?thesis using ok by (fastforce simp: picked_ok_def)
qed


theorem generate_quiz_distinct_and_unmastered_witness:
  "distinct (map qr_question_id (db_questions sample_db))
   \<and> distinct (map fst (format_distribution (config_or_default
         (Some (new_QuizConfig 3 (Some [(''synonym'', 2), (''antonym'', 1)]) 5)))))
   \<and> (\<forall>i rows. mset (table_order i rows) = mset rows)
   \<and> (\<forall>qs. mset (reverse_shuffle qs) = mset qs)
   \<and> wordsMappedTo sample_db 4 \<subseteq> get_globally_mastered_words sample_db 7
   \<and> (\<exists>qa db'. generate_quiz table_order reverse_shuffle sample_db 7
          (Some (new_QuizConfig 3 (Some [(''synonym'', 2), (''antonym'', 1)]) 5)) = Inr (qa, db')
        \<and> map question_id (questions qa) = [3, 2, 1]
        \<and> distinct (map question_id (questions qa))
        \<and> list_all (\<lambda>q. wordsMappedTo sample_db (question_id q)
                            \<inter> get_globally_mastered_words sample_db 7 = {}) (questions qa))"
proof -
  let ?c = "Some (new_QuizConfig 3 (Some [(''synonym'', 2), (''antonym'', 1)]) 5)"
  have pk: "distinct (map qr_question_id (db_questions sample_db))"
    by (simp add: sample_defs)
  have keys: "distinct (map fst (format_distribution (config_or_default ?c)))"
    by (simp add: config_or_default_def new_QuizConfig_def)
  have perm: "\<forall>i rows. mset (table_order i rows) = mset rows"
    by (simp add: table_order_def)
  have shuf: "\<forall>qs. mset (reverse_shuffle qs) = mset qs"
    by (simp add: reverse_shuffle_def)
  have w4: "wordsMappedTo sample_db 4 \<subseteq> get_globally_mastered_words sample_db 7"
    by (simp add: wordsMappedTo_def get_globally_mastered_words_def sample_defs)
  have "\<exists>qa db'. generate_quiz table_order reverse_shuffle sample_db 7 ?c = Inr (qa, db')
          \<and> map question_id (questions qa) = [3, 2, 1]"
    by (simp add: selector_defs sample_defs)
  then obtain qa db' where
    run: "generate_quiz table_order reverse_shuffle sample_db 7 ?c = Inr (qa, db')"
    and ids: "map question_id (questions qa) = [3, 2, 1]"
    by (elim exE conjE)
  note main = generate_quiz_distinct_and_unmastered [OF pk keys perm shuf run]
  have d: "distinct (map question_id (questions qa))" using main by (rule conjunct1)
  have "\<forall>q \<in> set (questions qa).
      wordsMappedTo sample_db (question_id q) \<inter> get_globally_mastered_words sample_db 7 = {}"
    using main by blast
  then have l: "list_all (\<lambda>q. wordsMappedTo sample_db (question_id q)
                            \<inter> get_globally_mastered_words sample_db 7 = {}) (questions qa)"
    by (simp add: list_all_iff)
  show ?thesis
    using pk keys perm shuf w4 run ids d l
    by (intro conjI exI [of _ qa] exI [of _ db'])
qed





section \<open>Session rounds\<close>

lemma find_in_catalog:
  assumes "in_catalog db qid"
  shows "\<exists>q. find (\<lambda>q. qr_question_id q = qid) (db_questions db) = Some q"
proof (cases "find (\<lambda>q. qr_question_id q = qid) (db_questions db)")
  case None
  then have "\<not> (\<exists>q. q \<in> set (db_questions db) \<and> qr_question_id q = qid)"
    by (simp add: find_None_iff)
  moreover from assms have "\<exists>q. q \<in> set (db_questions db) \<and> qr_question_id q = qid"
    unfolding in_catalog_def by auto
  ultimately show ?thesis by simp
next
  case (Some q)
  then show ?thesis by simp
qed

lemma in_catalog_responses_added:
  "responses_added db db' qids \<Longrightarrow> in_catalog db' qid = in_catalog db qid"
  by (simp add: in_catalog_def responses_added_def)

lemma responses_added_trans:
  "responses_added db db1 xs \<Longrightarrow> responses_added db1 db2 ys \<Longrightarrow> responses_added db db2 (xs @ ys)"
  by (simp add: responses_added_def)

lemma submit_response_found:
  assumes "in_catalog db qid"
  shows "\<exists>resp db'. submit_response db aid qid answer = Inr (resp, db')
          \<and> r_question_id resp = qid \<and> responses_added db db' [qid]"
proof -
  from find_in_catalog [OF assms] obtain q where
    "find (\<lambda>q. qr_question_id q = qid) (db_questions db) = Some q"
    by (elim exE)
  then show ?thesis by (simp add: submit_response_def Let_def responses_added_def)
qed

lemma submit_response_missing:
  assumes "\<not> in_catalog db qid"
  shows "submit_response db aid qid answer = Inl (QuestionNotFound qid)"
proof -
  from assms have "find (\<lambda>q. qr_question_id q = qid) (db_questions db) = None"
    by (auto simp: in_catalog_def find_None_iff)
  then show ?thesis by (simp add: submit_response_def)
qed

lemma submit_responses_all_found:
  "list_all (\<lambda>r. in_catalog db (fst r)) rs \<Longrightarrow>
   \<exists>resps db'. submit_responses db aid rs acc = (Inr (acc @ resps), db')
      \<and> map r_question_id resps = map fst rs \<and> responses_added db db' (map fst rs)"
proof (induction rs arbitrary: db acc)
  case Nil
  show ?case by (simp add: responses_added_def)
next
  case (Cons r rs)
  from Cons.prems have here: "in_catalog db (fst r)"
    and rest: "list_all (\<lambda>r. in_catalog db (fst r)) rs" by simp_all
  from submit_response_found [OF here, of aid "snd r"] obtain resp db1 where
    s: "submit_response db aid (fst r) (snd r) = Inr (resp, db1)"
    and ids: "r_question_id resp = fst r"
    and fr: "responses_added db db1 [fst r]"
    by (elim exE conjE)
  have "list_all (\<lambda>r. in_catalog db1 (fst r)) rs"
    using rest by (simp add: in_catalog_responses_added [OF fr])
  from Cons.IH [OF this, of "acc @ [resp]"] obtain resps db' where
    rec: "submit_responses db1 aid rs (acc @ [resp]) = (Inr ((acc @ [resp]) @ resps), db')"
    and m: "map r_question_id resps = map fst rs"
    and fr2: "responses_added db1 db' (map fst rs)"
    by (elim exE conjE)
  have 1: "submit_responses db aid (r # rs) acc = (Inr (acc @ (resp # resps)), db')"
    using s rec by simp
  have 2: "map r_question_id (resp # resps) = map fst (r # rs)"
    using ids m by simp
  have 3: "responses_added db db' (map fst (r # rs))"
    using responses_added_trans [OF fr fr2] by simp
  show ?case using 1 2 3 by (intro exI [of _ "resp # resps"] exI [of _ db'] conjI)
qed

lemma submit_responses_some_missing:
  "\<not> list_all (\<lambda>r. in_catalog db (fst r)) rs \<Longrightarrow>
   \<exists>qid db'. submit_responses db aid rs acc = (Inl (QuestionNotFound qid), db')
      \<and> qid \<in> set (map fst rs) \<and> \<not> in_catalog db qid"
proof (induction rs arbitrary: db acc)
  case Nil
  then show ?case by simp
next
  case (Cons r rs)
  show ?case
  proof (cases "in_catalog db (fst r)")
    case False
    then have "submit_responses db aid (r # rs) acc = (Inl (QuestionNotFound (fst r)), db)"
      by (simp add: submit_response_missing)
    then show ?thesis using False by (intro exI [of _ "fst r"] exI [of _ db]) simp
  next
    case True
    from submit_response_found [OF True, of aid "snd r"] obtain resp db1 where
      s: "submit_response db aid (fst r) (snd r) = Inr (resp, db1)"
      and fr: "responses_added db db1 [fst r]"
      by (elim exE conjE)
    from Cons.prems True have "\<not> list_all (\<lambda>r. in_catalog db1 (fst r)) rs"
      by (simp add: in_catalog_responses_added [OF fr])
    from Cons.IH [OF this, of "acc @ [resp]"] obtain qid db' where
      rec: "submit_responses db1 aid rs (acc @ [resp]) = (Inl (QuestionNotFound qid), db')"
      and q: "qid \<in> set (map fst rs)" "\<not> in_catalog db1 qid"
      by (elim exE conjE)
    have 1: "submit_responses db aid (r # rs) acc = (Inl (QuestionNotFound qid), db')"
      using s rec by simp
    have 2: "qid \<in> set (map fst (r # rs))" using q(1) by simp
    have 3: "\<not> in_catalog db qid" using q(2) by (simp add: in_catalog_responses_added [OF fr])
    show ?thesis using 1 2 3 by (intro exI [of _ qid] exI [of _ db'] conjI)
  qed
qed


lemma all_correct_iff:
  "(length (filter P xs) = length xs) = (filter (\<lambda>x. \<not> P x) xs = [])"
proof -
  have "length (filter P xs) + length (filter (\<lambda>x. \<not> P x) xs) = length xs"
    by (rule sum_length_filter_compl)
  then show ?thesis by auto
qed

lemma is_perfect_score_iff:
  "is_perfect_score (quiz_result_of db aid qrs) = (filter (\<lambda>r. \<not> is_correct r) qrs = [])"
  by (simp add: quiz_result_of_def Let_def all_correct_iff)

lemma res_responses_result: "res_responses (quiz_result_of db aid qrs) = qrs"
  by (simp add: quiz_result_of_def Let_def)


lemma score_percentage_result:
  "score_percentage (quiz_result_of db aid qrs)
     = (if qrs = [] then 0
        else of_int (int (length (filter is_correct qrs))) / of_int (int (length qrs)) * 100)"
  by (simp add: quiz_result_of_def Let_def)

lemma percent_100:
  "b \<noteq> 0 \<Longrightarrow> ((of_nat a :: rat) * 100 / of_nat b = 100) = (a = b)"
  by (auto simp: field_simps)

lemma score_100_iff_perfect:
  assumes "qrs \<noteq> []"
  shows "(score_percentage (quiz_result_of db aid qrs) = 100)
           = is_perfect_score (quiz_result_of db aid qrs)"
  using assms by (simp add: quiz_result_of_def Let_def percent_100)

lemma set_fetch_incorrect_questions:
  assumes "list_all (in_catalog db) ids"
  shows "set (map question_id (fetch_incorrect_questions db ids)) = set ids"
proof -
  have "map question_id (fetch_incorrect_questions db ids)
      = filter (\<lambda>i. i \<in> set ids) (map qr_question_id (db_questions db))"
    by (simp add: fetch_incorrect_questions_def question_of_row_def filter_map comp_def)
  moreover have "set ids \<subseteq> set (map qr_question_id (db_questions db))"
    using assms by (auto simp: list_all_iff in_catalog_def)
  ultimately show ?thesis by auto
qed

lemma incorrect_questions_result:
  assumes cat: "list_all (in_catalog db) (map r_question_id qrs)"
    and wrong: "filter (\<lambda>r. \<not> is_correct r) qrs \<noteq> []"
  shows "\<exists>q qs. incorrect_questions (quiz_result_of db aid qrs) = Some (q # qs)
           \<and> q # qs = fetch_incorrect_questions db
                        (map r_question_id (filter (\<lambda>r. \<not> is_correct r) qrs))
           \<and> set (map question_id (q # qs))
               = set (map r_question_id (filter (\<lambda>r. \<not> is_correct r) qrs))"
proof -
  let ?ids = "map r_question_id (filter (\<lambda>r. \<not> is_correct r) qrs)"
  have "list_all (in_catalog db) ?ids"
    using cat by (auto simp: list_all_iff)
  then have s: "set (map question_id (fetch_incorrect_questions db ?ids)) = set ?ids"
    by (rule set_fetch_incorrect_questions)
  have ne: "?ids \<noteq> []" using wrong by simp
  then have "set ?ids \<noteq> {}" by (simp only: set_empty not_False_eq_True)
  with s have "fetch_incorrect_questions db ?ids \<noteq> []" by auto
  then obtain q qs where f: "fetch_incorrect_questions db ?ids = q # qs"
    by (cases "fetch_incorrect_questions db ?ids") simp_all
  have np: "length (filter is_correct qrs) \<noteq> length qrs"
    using wrong by (simp add: all_correct_iff)
  have "incorrect_questions (quiz_result_of db aid qrs) = Some (q # qs)"
    using np ne f by (simp add: quiz_result_of_def Let_def)
  then show ?thesis using f s by (intro exI [of _ q] exI [of _ qs]) simp
qed

lemma no_incorrect_questions_result:
  assumes "filter (\<lambda>r. \<not> is_correct r) qrs = []"
  shows "incorrect_questions (quiz_result_of db aid qrs) = None"
  using assms by (simp add: quiz_result_of_def Let_def all_correct_iff)


lemma submit_quiz_all_found:
  assumes "list_all (\<lambda>r. in_catalog db (fst r)) rs"
  shows "\<exists>qrs db1. submit_quiz db aid rs
            = (Inr (quiz_result_of db1 aid qrs), mark_completed db1 aid)
          \<and> map r_question_id qrs = map fst rs \<and> responses_added db db1 (map fst rs)"
proof -
  from submit_responses_all_found [OF assms, of aid "[]"] obtain qrs db1 where
    s: "submit_responses db aid rs [] = (Inr ([] @ qrs), db1)"
    and m: "map r_question_id qrs = map fst rs"
    and fr: "responses_added db db1 (map fst rs)"
    by (elim exE conjE)
  have "submit_quiz db aid rs = (Inr (quiz_result_of db1 aid qrs), mark_completed db1 aid)"
    using s by (simp add: submit_quiz_def)
  then show ?thesis using m fr by (intro exI [of _ qrs] exI [of _ db1] conjI)
qed

lemma submit_quiz_some_missing:
  assumes "\<not> list_all (\<lambda>r. in_catalog db (fst r)) rs"
  shows "\<exists>qid db'. submit_quiz db aid rs = (Inl (QuestionNotFound qid), db')
          \<and> qid \<in> set (map fst rs) \<and> \<not> in_catalog db qid"
proof -
  from submit_responses_some_missing [OF assms, of aid "[]"] obtain qid db' where
    s: "submit_responses db aid rs [] = (Inl (QuestionNotFound qid), db')"
    and q: "qid \<in> set (map fst rs)" "\<not> in_catalog db qid"
    by (elim exE conjE)
  have "submit_quiz db aid rs = (Inl (QuestionNotFound qid), db')"
    using s by (simp add: submit_quiz_def)
  then show ?thesis using q by (intro exI [of _ qid] exI [of _ db'] conjI)
qed

text \<open>The two outcomes of a round whose responses all name catalog questions.\<close>

lemma round_perfect:
  assumes cur: "current_attempt_id session = Some aid"
    and sq: "submit_quiz db aid rs = (Inr (quiz_result_of db1 aid qrs), mark_completed db1 aid)"
    and perfect: "filter (\<lambda>r. \<not> is_correct r) qrs = []"
  shows "submit_quiz_session_round db session rs
      = (Inr (quiz_result_of db1 aid qrs,
              session \<lparr> completed_rounds := completed_rounds session @ [quiz_result_of db1 aid qrs],
                        is_completed := True \<rparr>),
         mark_completed db1 aid)"
  using perfect by (simp add: submit_quiz_session_round_def cur sq is_perfect_score_iff)

lemma round_imperfect:
  assumes cur: "current_attempt_id session = Some aid"
    and sq: "submit_quiz db aid rs = (Inr (quiz_result_of db1 aid qrs), mark_completed db1 aid)"
    and cat: "list_all (in_catalog db1) (map r_question_id qrs)"
    and wrong: "filter (\<lambda>r. \<not> is_correct r) qrs \<noteq> []"
  shows "submit_quiz_session_round db session rs
      = (Inr (quiz_result_of db1 aid qrs,
              session \<lparr> completed_rounds := completed_rounds session @ [quiz_result_of db1 aid qrs],
                        current_round := current_round session + 1,
                        current_attempt_id := Some (attempt_seq db1) \<rparr>),
         snd (create_retry_quiz (mark_completed db1 aid) (s_user_id session)
                (fetch_incorrect_questions db1
                   (map r_question_id (filter (\<lambda>r. \<not> is_correct r) qrs)))))"
proof -
  from incorrect_questions_result [OF cat wrong, of aid] obtain q qs where
    iq: "incorrect_questions (quiz_result_of db1 aid qrs) = Some (q # qs)"
    and f: "q # qs = fetch_incorrect_questions db1
                       (map r_question_id (filter (\<lambda>r. \<not> is_correct r) qrs))"
    by (elim exE conjE)
  have np: "\<not> is_perfect_score (quiz_result_of db1 aid qrs)"
    using wrong by (simp add: is_perfect_score_iff)
  have a: "attempt_id (fst (create_retry_quiz (mark_completed db1 aid) (s_user_id session) (q # qs)))
      = attempt_seq db1"
    by (simp add: create_retry_quiz_def Let_def mark_completed_def)
  show ?thesis
    unfolding f [symmetric]
    using np iq a by (simp add: submit_quiz_session_round_def cur sq split_def Let_def)
qed

lemma retry_attempt_items:
  assumes "list_all (\<lambda>item. fst item < attempt_seq d) (db_quiz_attempt_items d)"
  shows "attempt_question_ids (snd (create_retry_quiz d uid qs)) (attempt_seq d)
           = map question_id qs"
proof -
  have "filter (\<lambda>item. fst item = attempt_seq d) (db_quiz_attempt_items d) = []"
    using assms by (auto simp: list_all_iff filter_empty_conv)
  then show ?thesis
    by (simp add: attempt_question_ids_def create_retry_quiz_def Let_def filter_map comp_def)
qed





lemma round_some_missing:
  assumes cur: "current_attempt_id session = Some aid"
    and bad: "\<not> list_all (\<lambda>r. in_catalog db (fst r)) rs"
  shows "\<exists>qid db'. submit_quiz_session_round db session rs = (Inl (QuestionNotFound qid), db')
           \<and> qid \<in> set (map fst rs) \<and> \<not> in_catalog db qid"
proof -
  from submit_quiz_some_missing [OF bad, of aid] obtain qid db' where
    sq: "submit_quiz db aid rs = (Inl (QuestionNotFound qid), db')"
    and q: "qid \<in> set (map fst rs)" "\<not> in_catalog db qid"
    by (elim exE conjE)
  have "submit_quiz_session_round db session rs = (Inl (QuestionNotFound qid), db')"
    by (simp add: submit_quiz_session_round_def cur sq)
  then show ?thesis using q by (intro exI [of _ qid] exI [of _ db'] conjI)
qed





text \<open>A round that returns a result had an active attempt and named only catalog questions.\<close>

lemma round_result_cases:
  assumes run: "submit_quiz_session_round db session rs = (Inr (result, session'), db')"
  obtains aid qrs db1 where
    "current_attempt_id session = Some aid"
    "submit_quiz db aid rs = (Inr (quiz_result_of db1 aid qrs), mark_completed db1 aid)"
    "map r_question_id qrs = map fst rs"
    "responses_added db db1 (map fst rs)"
    "list_all (in_catalog db1) (map r_question_id qrs)"
proof -
  from run obtain aid where cur: "current_attempt_id session = Some aid"
    by (cases "current_attempt_id session") (simp_all add: submit_quiz_session_round_def)
  have ok: "list_all (\<lambda>r. in_catalog db (fst r)) rs"
  proof (rule ccontr)
    assume "\<not> list_all (\<lambda>r. in_catalog db (fst r)) rs"
    from round_some_missing [OF cur this] run show False by auto
  qed
  from submit_quiz_all_found [OF ok, of aid] obtain qrs db1 where
    sq: "submit_quiz db aid rs = (Inr (quiz_result_of db1 aid qrs), mark_completed db1 aid)"
    and m: "map r_question_id qrs = map fst rs"
    and fr: "responses_added db db1 (map fst rs)"
    by (elim exE conjE)
  have cat: "list_all (in_catalog db1) (map r_question_id qrs)"
    using ok unfolding m by (simp add: list_all_iff in_catalog_responses_added [OF fr])
  show thesis using that [OF cur sq m fr cat] .
qed

text \<open>
  Claim C3. When a round has incorrectly answered questions, the session moves to a new
  attempt whose question set is exactly the set of questions answered incorrectly in the
  round, and the round counter grows by one; the same set is returned as the round's
  \<open>incorrect_questions\<close>, which the API sends as the next questions. The attempt ids come
  from a serial, so no stored item carries an id that has not been issued yet.
\<close>

theorem next_round_is_incorrect_set:
  assumes fresh: "list_all (\<lambda>item. fst item < attempt_seq db) (db_quiz_attempt_items db)"
    and run: "submit_quiz_session_round db session rs = (Inr (result, session'), db')"
    and wrong: "filter (\<lambda>r. \<not> is_correct r) (res_responses result) \<noteq> []"
  shows "\<exists>aid'. current_attempt_id session' = Some aid'
           \<and> set (attempt_question_ids db' aid')
               = set (map r_question_id (filter (\<lambda>r. \<not> is_correct r) (res_responses result)))
           \<and> map r_question_id (res_responses result) = map fst rs
           \<and> current_round session' = current_round session + 1
           \<and> (\<exists>qs. incorrect_questions result = Some qs
                 \<and> set (map question_id qs)
                     = set (map r_question_id
                              (filter (\<lambda>r. \<not> is_correct r) (res_responses result))))"
proof -
  from run obtain aid qrs db1 where
    cur: "current_attempt_id session = Some aid"
    and sq: "submit_quiz db aid rs = (Inr (quiz_result_of db1 aid qrs), mark_completed db1 aid)"
    and m: "map r_question_id qrs = map fst rs"
    and fr: "responses_added db db1 (map fst rs)"
    and cat: "list_all (in_catalog db1) (map r_question_id qrs)"
    by (rule round_result_cases)
  let ?ids = "map r_question_id (filter (\<lambda>r. \<not> is_correct r) qrs)"
  let ?dbm = "mark_completed db1 aid"
  have res: "result = quiz_result_of db1 aid qrs"
    using run by (simp add: submit_quiz_session_round_def cur sq split_def Let_def
        split: if_splits option.splits list.splits)
  then have qrs: "res_responses result = qrs" by (simp add: res_responses_result)
  have w: "filter (\<lambda>r. \<not> is_correct r) qrs \<noteq> []" using wrong qrs by simp
  note shape = round_imperfect [OF cur sq cat w]
  have s': "session' = session \<lparr> completed_rounds := completed_rounds session @ [quiz_result_of db1 aid qrs],
                        current_round := current_round session + 1,
                        current_attempt_id := Some (attempt_seq db1) \<rparr>"
    and d': "db' = snd (create_retry_quiz ?dbm (s_user_id session)
                          (fetch_incorrect_questions db1 ?ids))"
    using run unfolding shape by auto
  have seq: "attempt_seq ?dbm = attempt_seq db1" "attempt_seq db1 = attempt_seq db"
    and items: "db_quiz_attempt_items ?dbm = db_quiz_attempt_items db"
    using fr by (simp_all add: mark_completed_def responses_added_def)
  have "list_all (\<lambda>item. fst item < attempt_seq ?dbm) (db_quiz_attempt_items ?dbm)"
    using fresh by (simp add: seq items)
  from retry_attempt_items [OF this]
  have "attempt_question_ids db' (attempt_seq db1)
      = map question_id (fetch_incorrect_questions db1 ?ids)"
    unfolding d' by (simp add: seq)
  moreover have "set (map question_id (fetch_incorrect_questions db1 ?ids)) = set ?ids"
    using cat by (intro set_fetch_incorrect_questions) (auto simp: list_all_iff)
  ultimately have 1: "set (attempt_question_ids db' (attempt_seq db1))
      = set (map r_question_id (filter (\<lambda>r. \<not> is_correct r) (res_responses result)))"
    by (simp only: qrs)
  have 2: "current_attempt_id session' = Some (attempt_seq db1)"
    and 3: "current_round session' = current_round session + 1"
    by (simp_all add: s')
  have 4: "map r_question_id (res_responses result) = map fst rs"
    using m qrs by simp
  from incorrect_questions_result [OF cat w, of aid] obtain q qs' where
    "incorrect_questions (quiz_result_of db1 aid qrs) = Some (q # qs')"
    and "set (map question_id (q # qs')) = set ?ids"
    by (elim exE conjE)
  then have 5: "\<exists>qs. incorrect_questions result = Some qs
      \<and> set (map question_id qs)
          = set (map r_question_id (filter (\<lambda>r. \<not> is_correct r) (res_responses result)))"
    unfolding res [symmetric] qrs by (intro exI [of _ "q # qs'"] conjI)
  show ?thesis using 2 1 4 3 5 by (intro exI [of _ "attempt_seq db1"] conjI)
qed

theorem next_round_is_incorrect_set_witness:
  "list_all (\<lambda>item. fst item < attempt_seq sample_session_db)
      (db_quiz_attempt_items sample_session_db)
   \<and> (\<exists>result session' db' aid'.
         submit_quiz_session_round sample_session_db sample_session [(3, ''Cold ''), (1, ''small'')]
           = (Inr (result, session'), db')
       \<and> map r_question_id (filter (\<lambda>r. \<not> is_correct r) (res_responses result)) = [1]
       \<and> current_attempt_id session' = Some aid'
       \<and> set (attempt_question_ids db' aid') = {1}
       \<and> current_round session' = 2)"
proof -
  have fresh: "list_all (\<lambda>item. fst item < attempt_seq sample_session_db)
      (db_quiz_attempt_items sample_session_db)"
    by (simp add: sample_defs)
  have "\<exists>result session' db'.
         submit_quiz_session_round sample_session_db sample_session [(3, ''Cold ''), (1, ''small'')]
           = (Inr (result, session'), db')
       \<and> map r_question_id (filter (\<lambda>r. \<not> is_correct r) (res_responses result)) = [1]"
    by (simp add: session_defs sample_defs string_defs)
  then obtain result session' db' where
    run: "submit_quiz_session_round sample_session_db sample_session [(3, ''Cold ''), (1, ''small'')]
           = (Inr (result, session'), db')"
    and ids: "map r_question_id (filter (\<lambda>r. \<not> is_correct r) (res_responses result)) = [1]"
    by (elim exE conjE)
  have wrong: "filter (\<lambda>r. \<not> is_correct r) (res_responses result) \<noteq> []"
    using ids by auto
  from next_round_is_incorrect_set [OF fresh run wrong] obtain aid' where
    c: "current_attempt_id session' = Some aid'"
    and s: "set (attempt_question_ids db' aid')
        = set (map r_question_id (filter (\<lambda>r. \<not> is_correct r) (res_responses result)))"
    and r: "current_round session' = current_round sample_session + 1"
    by (elim exE conjE)
  have s': "set (attempt_question_ids db' aid') = {1}" using s ids by simp
  have r': "current_round session' = 2" using r by (simp add: sample_defs)
  show ?thesis
    using fresh run ids c s' r'
    by (intro conjI exI [of _ result] exI [of _ session'] exI [of _ db'] exI [of _ aid'])
qed

text \<open>
  Claim C1 asks that a round submitted with an empty response list neither advances nor
  completes the session. In \<open>submit_quiz\<close> the score of an empty round is guarded
  (\<open>if total_count > 0 ... else 0\<close>), the perfect-score flag is not: with no response,
  \<open>correct_count == total_count\<close> holds. For every database and every session with an
  active attempt, the empty round returns a result of 0 questions and score 0 that is flagged
  perfect, is appended to the completed rounds, and marks the session completed; the round
  counter stays.
\<close>

theorem empty_round_completes_session:
  "(case submit_quiz_session_round db (session \<lparr> current_attempt_id := Some aid \<rparr>) [] of
      (Inl e, db') \<Rightarrow> False
    | (Inr (result, session'), db') \<Rightarrow>
        is_completed session' \<and> current_round session' = current_round session
        \<and> completed_rounds session' = completed_rounds session @ [result]
        \<and> total_questions result = 0 \<and> correct_answers result = 0
        \<and> score_percentage result = 0 \<and> is_perfect_score result)"
  by (simp add: submit_quiz_session_round_def submit_quiz_def quiz_result_of_def)

lemma round_step_completed:
  assumes ne: "rs \<noteq> []"
    and run: "submit_quiz_session_round db session rs = (Inr (result, session'), db')"
  shows "completed_rounds session' = completed_rounds session @ [result]
       \<and> is_completed session' = (is_completed session \<or> score_percentage result = 100)"
proof -
  from run obtain aid qrs db1 where
    cur: "current_attempt_id session = Some aid"
    and sq: "submit_quiz db aid rs = (Inr (quiz_result_of db1 aid qrs), mark_completed db1 aid)"
    and m: "map r_question_id qrs = map fst rs"
    and cat: "list_all (in_catalog db1) (map r_question_id qrs)"
    by (rule round_result_cases)
  have qne: "qrs \<noteq> []" using m ne by (metis map_is_Nil_conv)
  show ?thesis
  proof (cases "filter (\<lambda>r. \<not> is_correct r) qrs = []")
    case True
    have "score_percentage (quiz_result_of db1 aid qrs) = 100"
      using True by (simp add: score_100_iff_perfect [OF qne] is_perfect_score_iff)
    then show ?thesis using run unfolding round_perfect [OF cur sq True] by auto
  next
    case False
    have "score_percentage (quiz_result_of db1 aid qrs) \<noteq> 100"
      using False by (simp add: score_100_iff_perfect [OF qne] is_perfect_score_iff)
    then show ?thesis using run unfolding round_imperfect [OF cur sq cat False] by auto
  qed
qed

lemma submit_rounds_completed:
  "is_completed session \<Longrightarrow> submit_rounds db session rounds = (session, db)"
  by (cases rounds) simp_all

lemma completed_iff_perfect_round:
  "list_all (\<lambda>rs. rs \<noteq> []) rounds \<Longrightarrow>
   is_completed session = list_ex (\<lambda>r. score_percentage r = 100) (completed_rounds session) \<Longrightarrow>
   is_completed (fst (submit_rounds db session rounds))
     = list_ex (\<lambda>r. score_percentage r = 100)
         (completed_rounds (fst (submit_rounds db session rounds)))"
proof (induction rounds arbitrary: db session)
  case Nil
  then show ?case by simp
next
  case (Cons rs rest)
  from Cons.prems(1) have ne: "rs \<noteq> []" and rest: "list_all (\<lambda>rs. rs \<noteq> []) rest"
    by simp_all
  show ?case
  proof (cases "is_completed session")
    case True
    then show ?thesis using Cons.prems(2) by simp
  next
    case False
    obtain out db' where step: "submit_quiz_session_round db session rs = (out, db')"
      by (cases "submit_quiz_session_round db session rs")
    show ?thesis
    proof (cases out)
      case (Inl e)
      then have "submit_rounds db session (rs # rest) = submit_rounds db' session rest"
        using False step by simp
      then show ?thesis using Cons.IH [OF rest Cons.prems(2), of db'] by simp
    next
      case (Inr pair)
      obtain result session' where pair: "pair = (result, session')" by (cases pair)
      have run: "submit_quiz_session_round db session rs = (Inr (result, session'), db')"
        using step Inr pair by simp
      from round_step_completed [OF ne run]
      have inv: "is_completed session'
          = list_ex (\<lambda>r. score_percentage r = 100) (completed_rounds session')"
        using Cons.prems(2) by (auto simp: list_ex_iff)
      have "submit_rounds db session (rs # rest) = submit_rounds db' session' rest"
        using False run by simp
      then show ?thesis using Cons.IH [OF rest inv, of db'] by simp
    qed
  qed
qed


text \<open>
  Claim C4 says that a session is completed if and only if some submitted round reached a
  score of 100 percent. For rounds that are not empty this holds
  (\<open>completed_iff_perfect_round\<close>). It fails for the empty round, by the unguarded
  perfect-score flag of claim C1: the sample session is completed by one empty round, whose
  score is 0.
\<close>

theorem empty_round_completes_without_full_score:
  "(case submit_rounds sample_session_db sample_session [[]] of
      (session', db') \<Rightarrow>
        is_completed session'
        \<and> map score_percentage (completed_rounds session') = [0]
        \<and> map total_questions (completed_rounds session') = [0])"
  by (simp add: session_defs sample_defs)

section \<open>Question mastery\<close>

lemma recordAttempt_other:
  "(u', q') \<noteq> (u, q) \<Longrightarrow> recordAttempt store u' q' c f (u, q) = store (u, q)"
  by (auto simp: recordAttempt_def)

lemma recordAttempt_same:
  "recordAttempt store u q c f (u, q) = update_mastery (store (u, q)) c f"
  by (simp add: recordAttempt_def)

lemma recordAttempts_append:
  "recordAttempts store (as @ bs) = recordAttempts (recordAttempts store as) bs"
  by (induction store as rule: recordAttempts.induct) simp_all

lemma recordAttempts_counts:
  assumes "isMastered (store (u, q)) = (2 \<le> firstTryCorrectCount (store (u, q)))"
    and "firstTryCorrectCount (store (u, q)) \<le> 2"
  shows "firstTryCorrectCount (recordAttempts store as (u, q))
           = min 2 (firstTryCorrectCount (store (u, q)) + correct_first_attempts u q as)
       \<and> isMastered (recordAttempts store as (u, q))
           = (2 \<le> firstTryCorrectCount (store (u, q)) + correct_first_attempts u q as)"
  using assms
proof (induction store as rule: recordAttempts.induct)
  case (1 store)
  then show ?case by (simp add: correct_first_attempts_def)
next
  case (2 store u' q' c f rest)
  let ?s = "recordAttempt store u' q' c f"
  show ?case
  proof (cases "(u', q') = (u, q)")
    case False
    then have same: "?s (u, q) = store (u, q)" by (rule recordAttempt_other)
    have n: "correct_first_attempts u q ((u', q', c, f) # rest) = correct_first_attempts u q rest"
      using False by (auto simp: correct_first_attempts_def)
    show ?thesis using "2.IH" "2.prems" same n by simp
  next
    case True
    then have eq: "u' = u" "q' = q" by simp_all
    have st: "?s (u, q) = update_mastery (store (u, q)) c f"
      unfolding eq by (rule recordAttempt_same)
    show ?thesis
    proof (cases "c \<and> f")
      case False
      then have s1: "?s (u, q) = store (u, q)"
        unfolding st by (auto simp: update_mastery_def)
      have n: "correct_first_attempts u q ((u', q', c, f) # rest) = correct_first_attempts u q rest"
        using False by (auto simp: correct_first_attempts_def)
      show ?thesis using "2.IH" "2.prems" s1 n by simp
    next
      case cf: True
      have n: "correct_first_attempts u q ((u', q', c, f) # rest)
                 = Suc (correct_first_attempts u q rest)"
        using cf eq by (simp add: correct_first_attempts_def)
      show ?thesis
      proof (cases "isMastered (store (u, q))")
        case True
        then have s1: "?s (u, q) = store (u, q)"
          unfolding st by (simp add: update_mastery_def)
        from True "2.prems" have two: "firstTryCorrectCount (store (u, q)) = 2" by simp
        show ?thesis using "2.IH" "2.prems" s1 n two by simp
      next
        case False
        then have c1: "firstTryCorrectCount (?s (u, q)) = Suc (firstTryCorrectCount (store (u, q)))"
          and m1: "isMastered (?s (u, q)) = (2 \<le> Suc (firstTryCorrectCount (store (u, q))))"
          unfolding st using cf by (simp_all add: update_mastery_def mastery_threshold_def)
        from False "2.prems" have lt: "firstTryCorrectCount (store (u, q)) < 2" by simp
        have "isMastered (?s (u, q)) = (2 \<le> firstTryCorrectCount (?s (u, q)))"
          and "firstTryCorrectCount (?s (u, q)) \<le> 2"
          using c1 m1 lt by simp_all
        from "2.IH" [OF this] show ?thesis using c1 n by simp
      qed
    qed
  qed
qed

text \<open>
  Claim C5. For every user and question, after any sequence of recorded attempts starting
  from the empty store: the first-try-correct counter is the number of correct first
  attempts at the question, capped at 2; \<open>isMastered\<close> is true exactly when that number has
  reached 2, so never earlier; and once it is true it stays true, with the counter at 2,
  after any further attempts.
\<close>

theorem mastery_after_two_correct_first_attempts:
  "firstTryCorrectCount (recordAttempts empty_store as (u, q))
     = min 2 (correct_first_attempts u q as)
   \<and> isMastered (recordAttempts empty_store as (u, q)) = (2 \<le> correct_first_attempts u q as)
   \<and> (isMastered (recordAttempts empty_store as (u, q))
        \<longrightarrow> isMastered (recordAttempts empty_store (as @ later) (u, q))
            \<and> firstTryCorrectCount (recordAttempts empty_store (as @ later) (u, q)) = 2)"
proof -
  have e: "isMastered (empty_store (u, q)) = (2 \<le> firstTryCorrectCount (empty_store (u, q)))"
    "firstTryCorrectCount (empty_store (u, q)) \<le> 2"
    "firstTryCorrectCount (empty_store (u, q)) = 0"
    by (simp_all add: empty_store_def)
  have app: "correct_first_attempts u q (as @ later)
               = correct_first_attempts u q as + correct_first_attempts u q later"
    by (simp add: correct_first_attempts_def)
  show ?thesis
    using recordAttempts_counts [of empty_store u q as, OF e(1,2)]
      recordAttempts_counts [of empty_store u q "as @ later", OF e(1,2)]
    by (simp add: e(3) app)
qed

theorem mastery_after_two_correct_first_attempts_witness:
  "isMastered (recordAttempts empty_store
       [(7, 1, True, True), (7, 1, False, True), (7, 1, True, True)] (7, 1))
   \<and> \<not> isMastered (recordAttempts empty_store [(7, 1, True, True), (7, 1, False, True)] (7, 1))
   \<and> isMastered (recordAttempts empty_store
       ([(7, 1, True, True), (7, 1, False, True), (7, 1, True, True)]
          @ [(7, 1, False, True), (7, 1, True, True)]) (7, 1))
   \<and> firstTryCorrectCount (recordAttempts empty_store
       ([(7, 1, True, True), (7, 1, False, True), (7, 1, True, True)]
          @ [(7, 1, False, True), (7, 1, True, True)]) (7, 1)) = 2"
proof -
  have m: "isMastered (recordAttempts empty_store
       [(7, 1, True, True), (7, 1, False, True), (7, 1, True, True)] (7, 1))"
    by (simp add: recordAttempt_def update_mastery_def mastery_threshold_def empty_store_def)
  have n: "\<not> isMastered (recordAttempts empty_store [(7, 1, True, True), (7, 1, False, True)] (7, 1))"
    by (simp add: recordAttempt_def update_mastery_def mastery_threshold_def empty_store_def)
  show ?thesis
    using m n mastery_after_two_correct_first_attempts
      [of "[(7, 1, True, True), (7, 1, False, True), (7, 1, True, True)]" 7 1
          "[(7, 1, False, True), (7, 1, True, True)]"]
    by (intro conjI) (simp_all only: simp_thms)
qed

section \<open>Word mastery\<close>

lemma set_questionsMappedTo: "set (questionsMappedTo wqm w) = {q. (w, q) \<in> set wqm}"
  by (force simp: questionsMappedTo_def)

lemma totalQuestions_card:
  "totalQuestions (getWordMastery store wqm u w) = card {q. (w, q) \<in> set wqm}"
proof -
  have "length (questionsMappedTo wqm w) = card (set (questionsMappedTo wqm w))"
    by (simp add: questionsMappedTo_def length_remdups_card_conv)
  then show ?thesis
    by (simp add: getWordMastery_def Let_def set_questionsMappedTo)
qed

lemma masteredQuestions_card:
  "masteredQuestions (getWordMastery store wqm u w)
     = card {q. (w, q) \<in> set wqm \<and> isMastered (store (u, q))}"
proof -
  let ?P = "\<lambda>q. isMastered (store (u, q))"
  have "distinct (questionsMappedTo wqm w)"
    by (simp add: questionsMappedTo_def)
  then have "distinct (filter ?P (questionsMappedTo wqm w))"
    by (rule distinct_filter)
  then have "length (filter ?P (questionsMappedTo wqm w))
      = card (set (filter ?P (questionsMappedTo wqm w)))"
    by (rule distinct_card [symmetric])
  also have "set (filter ?P (questionsMappedTo wqm w))
      = {q. (w, q) \<in> set wqm \<and> isMastered (store (u, q))}"
    by (auto simp: set_questionsMappedTo)
  finally show ?thesis
    by (simp add: getWordMastery_def Let_def)
qed

lemma percentage_formula:
  "percentage (getWordMastery store wqm u w)
     = (if totalQuestions (getWordMastery store wqm u w) = 0 then 0
        else 100 * of_nat (masteredQuestions (getWordMastery store wqm u w))
               / of_nat (totalQuestions (getWordMastery store wqm u w)))"
  by (simp add: getWordMastery_def Let_def)

text \<open>
  Claim C6. For every user and word, the word-mastery read counts all questions currently
  mapped to the word and those of them the user has mastered; its percentage is
  \<open>100 * masteredQuestions / totalQuestions\<close>, and 0 when the word is mapped to no question.
  The read after a new question-word mapping was added counts the new question at once: the
  total grows by one, and the percentage is that of the new counts.
\<close>

theorem word_mastery_percentage:
  "totalQuestions (getWordMastery store wqm u w) = card {q. (w, q) \<in> set wqm}
   \<and> masteredQuestions (getWordMastery store wqm u w)
       = card {q. (w, q) \<in> set wqm \<and> isMastered (store (u, q))}
   \<and> percentage (getWordMastery store wqm u w)
       = (if totalQuestions (getWordMastery store wqm u w) = 0 then 0
          else 100 * of_nat (masteredQuestions (getWordMastery store wqm u w))
                 / of_nat (totalQuestions (getWordMastery store wqm u w)))
   \<and> ((w, q) \<notin> set wqm \<longrightarrow>
        totalQuestions (getWordMastery store (addMapping wqm w q) u w)
          = totalQuestions (getWordMastery store wqm u w) + 1
        \<and> masteredQuestions (getWordMastery store (addMapping wqm w q) u w)
          = masteredQuestions (getWordMastery store wqm u w)
              + (if isMastered (store (u, q)) then 1 else 0)
        \<and> percentage (getWordMastery store (addMapping wqm w q) u w)
          = 100 * of_nat (masteredQuestions (getWordMastery store wqm u w)
                            + (if isMastered (store (u, q)) then 1 else 0))
              / of_nat (totalQuestions (getWordMastery store wqm u w) + 1))"
proof (intro conjI impI)
  assume new: "(w, q) \<notin> set wqm"
  have fin: "finite {q'. (w, q') \<in> set wqm}"
  proof (rule finite_subset)
    show "{q'. (w, q') \<in> set wqm} \<subseteq> snd ` set wqm" by force
  qed simp
  have t_set: "{q'. (w, q') \<in> set (addMapping wqm w q)} = insert q {q'. (w, q') \<in> set wqm}"
    by (auto simp: addMapping_def)
  show t: "totalQuestions (getWordMastery store (addMapping wqm w q) u w)
          = totalQuestions (getWordMastery store wqm u w) + 1"
    using new fin by (simp add: totalQuestions_card t_set)
  have finm: "finite {q'. (w, q') \<in> set wqm \<and> isMastered (store (u, q'))}"
    using fin by (rule rev_finite_subset) auto
  show m: "masteredQuestions (getWordMastery store (addMapping wqm w q) u w)
          = masteredQuestions (getWordMastery store wqm u w)
              + (if isMastered (store (u, q)) then 1 else 0)"
  proof (cases "isMastered (store (u, q))")
    case True
    then have "{q'. (w, q') \<in> set (addMapping wqm w q) \<and> isMastered (store (u, q'))}
        = insert q {q'. (w, q') \<in> set wqm \<and> isMastered (store (u, q'))}"
      by (auto simp: addMapping_def)
    then show ?thesis using True new finm by (simp add: masteredQuestions_card)
  next
    case False
    then have "{q'. (w, q') \<in> set (addMapping wqm w q) \<and> isMastered (store (u, q'))}
        = {q'. (w, q') \<in> set wqm \<and> isMastered (store (u, q'))}"
      by (auto simp: addMapping_def)
    then show ?thesis using False by (simp add: masteredQuestions_card)
  qed
  show "percentage (getWordMastery store (addMapping wqm w q) u w)
          = 100 * of_nat (masteredQuestions (getWordMastery store wqm u w)
                            + (if isMastered (store (u, q)) then 1 else 0))
              / of_nat (totalQuestions (getWordMastery store wqm u w) + 1)"
    unfolding percentage_formula [of store "addMapping wqm w q"] t m by simp
qed (rule totalQuestions_card masteredQuestions_card percentage_formula)+

theorem word_mastery_percentage_witness:
  "(11 :: int, 5 :: int) \<notin> set [(11, 2), (12, 3)]
   \<and> percentage (getWordMastery (recordAttempts empty_store [(7, 2, True, True), (7, 2, True, True)])
        [(11, 2), (12, 3)] 7 11) = 100
   \<and> percentage (getWordMastery (recordAttempts empty_store [(7, 2, True, True), (7, 2, True, True)])
        (addMapping [(11, 2), (12, 3)] 11 5) 7 11) = 50
   \<and> percentage (getWordMastery (recordAttempts empty_store [(7, 2, True, True), (7, 2, True, True)])
        [(11, 2), (12, 3)] 7 99) = 0"
proof -
  let ?s = "recordAttempts empty_store [(7, 2, True, True), (7, 2, True, True)]"
  have new: "(11 :: int, 5 :: int) \<notin> set [(11, 2), (12, 3)]" by simp
  have m2: "isMastered (?s (7, 2))" and m5: "\<not> isMastered (?s (7, 5))"
    by (simp_all add: recordAttempt_def update_mastery_def mastery_threshold_def empty_store_def)
  have c: "totalQuestions (getWordMastery ?s [(11, 2), (12, 3)] 7 11) = 1"
    "masteredQuestions (getWordMastery ?s [(11, 2), (12, 3)] 7 11) = 1"
    "totalQuestions (getWordMastery ?s [(11, 2), (12, 3)] 7 99) = 0"
    using m2 by (simp_all add: getWordMastery_def questionsMappedTo_def Let_def)
  note w1 = word_mastery_percentage [of ?s "[(11, 2), (12, 3)]" 7 11 5]
  note w2 = word_mastery_percentage [of ?s "[(11, 2), (12, 3)]" 7 99 5]
  have p1: "percentage (getWordMastery ?s [(11, 2), (12, 3)] 7 11) = 100"
    using w1 c by simp
  have p2: "percentage (getWordMastery ?s (addMapping [(11, 2), (12, 3)] 11 5) 7 11) = 50"
    using w1 new c m5 by simp
  have p3: "percentage (getWordMastery ?s [(11, 2), (12, 3)] 7 99) = 0"
    using w2 c by simp
  show ?thesis using new p1 p2 p3 by (intro conjI)
qed

end
